theory Spec2Isabelle
  imports Complex_Main "HOL-Library.Sublist"
begin

section \<open>Python values and text primitives\<close>

text \<open>
  The source runs on Python 3 only (it has annotations and uses \<^verbatim>\<open>urllib.request\<close>), where
  text (\<^verbatim>\<open>str\<close>) and \<^verbatim>\<open>bytes\<close> are different types: a \<^verbatim>\<open>bytes\<close> object is never equal to a
  \<^verbatim>\<open>str\<close>, the socket and HTTP libraries deliver \<^verbatim>\<open>bytes\<close> and accept only \<^verbatim>\<open>bytes\<close>, and
  the operations on text refuse \<^verbatim>\<open>bytes\<close>. The source converts nowhere between the two.
  A value handled by the modelled code is one or the other; equality of values is
  Python's \<^verbatim>\<open>==\<close> on them. A character is a code point below 256.
\<close>

datatype pyval = Str string | Bytes string

text \<open>Python's \<^verbatim>\<open>str.isspace\<close> (also the class \<^verbatim>\<open>\s\<close> of a text pattern and what
  \<^verbatim>\<open>strip()\<close> removes), on code points below 256.\<close>

definition is_space :: "char \<Rightarrow> bool" where
  "is_space c = (c \<in> {CHR 0x09, CHR 0x0A, CHR 0x0B, CHR 0x0C, CHR 0x0D,
                       CHR 0x1C, CHR 0x1D, CHR 0x1E, CHR 0x1F, CHR 0x20,
                       CHR 0x85, CHR 0xA0})"

text \<open>The class \<^verbatim>\<open>\d\<close> on code points below 256.\<close>

definition is_digit :: "char \<Rightarrow> bool" where
  "is_digit c = (c \<in> set ''0123456789'')"

text \<open>A line boundary of \<^verbatim>\<open>str.splitlines\<close>, and one of \<^verbatim>\<open>bytes.splitlines\<close> (in both the
  pair CR LF is one boundary).\<close>

definition is_linebreak :: "char \<Rightarrow> bool" where
  "is_linebreak c = (c \<in> {CHR 0x0A, CHR 0x0B, CHR 0x0C, CHR 0x0D,
                           CHR 0x1C, CHR 0x1D, CHR 0x1E, CHR 0x85})"

definition is_bytes_linebreak :: "char \<Rightarrow> bool" where
  "is_bytes_linebreak c = (c \<in> {CHR 0x0A, CHR 0x0D})"

text \<open>The lines of a text or of a byte string without their boundaries, for the given
  boundaries; no empty last line.\<close>

fun splitlines_from :: "(char \<Rightarrow> bool) \<Rightarrow> string \<Rightarrow> string \<Rightarrow> string list" where
  "splitlines_from brk line [] = (if line = [] then [] else [line])"
| "splitlines_from brk line (c # cs) =
     (if brk c then
        (case cs of
           c' # cs' \<Rightarrow>
             if c = CHR 0x0D \<and> c' = CHR 0x0A then line # splitlines_from brk [] cs'
             else line # splitlines_from brk [] cs
         | [] \<Rightarrow> line # splitlines_from brk [] cs)
      else splitlines_from brk (line @ [c]) cs)"

text \<open>\<^verbatim>\<open>device.splitlines()\<close>: the lines of a text are texts, those of \<^verbatim>\<open>bytes\<close> are
  \<^verbatim>\<open>bytes\<close>.\<close>

fun splitlines :: "pyval \<Rightarrow> pyval list" where
  "splitlines (Str s) = map Str (splitlines_from is_linebreak [] s)"
| "splitlines (Bytes b) = map Bytes (splitlines_from is_bytes_linebreak [] b)"

text \<open>\<^verbatim>\<open>str.strip()\<close>.\<close>

definition strip :: "string \<Rightarrow> string" where
  "strip s = rev (dropWhile is_space (rev (dropWhile is_space s)))"

text \<open>\<^verbatim>\<open>sub in s\<close> on texts: \<open>sub\<close> occurs in \<open>s\<close> as a contiguous piece.\<close>

fun contains :: "string \<Rightarrow> string \<Rightarrow> bool" where
  "contains sub [] = (sub = [])"
| "contains sub (c # cs) = (prefix sub (c # cs) \<or> contains sub cs)"

text \<open>Removing a literal from the front of a text, when it is there.\<close>

fun literal :: "string \<Rightarrow> string \<Rightarrow> string option" where
  "literal [] s = Some s"
| "literal (p # ps) [] = None"
| "literal (p # ps) (c # cs) = (if p = c then literal ps cs else None)"

text \<open>
  \<^verbatim>\<open>re.match("IP Address=([\d\.]*)  Port: (\d+)", field)\<close> on a text: anchored at the start
  of the line only. Both groups are greedy runs; no character of the first class can
  start the literal that follows it, so backtracking never changes the result. The
  result is the pair of groups 1 and 2.
\<close>

definition match_ip_address :: "string \<Rightarrow> (string \<times> string) option" where
  "match_ip_address field =
     (case literal ''IP Address='' field of
        None \<Rightarrow> None
      | Some r \<Rightarrow>
          let g1 = takeWhile (\<lambda>c. is_digit c \<or> c = CHR ''.'') r;
              r1 = dropWhile (\<lambda>c. is_digit c \<or> c = CHR ''.'') r
          in (case literal ''  Port: '' r1 of
                None \<Rightarrow> None
              | Some r2 \<Rightarrow>
                  let g2 = takeWhile is_digit r2
                  in if g2 = [] then None else Some (g1, g2)))"

text \<open>
  \<^verbatim>\<open>re.split('[:=]|\s\s+', field)\<close> on a text: the pieces of the line between delimiters,
  a delimiter being one colon, one equals sign, or a maximal run of two or more
  whitespace characters. The pattern has no group and matches no empty text.
\<close>

function re_split_from :: "string \<Rightarrow> string \<Rightarrow> string list" where
  "re_split_from tok [] = [tok]"
| "re_split_from tok (c # cs) =
     (if c = CHR '':'' \<or> c = CHR ''='' then tok # re_split_from [] cs
      else if is_space c \<and> cs \<noteq> [] \<and> is_space (hd cs)
           then tok # re_split_from [] (dropWhile is_space cs)
      else re_split_from (tok @ [c]) cs)"
  by pat_completeness auto
termination
  by (relation "measure (\<lambda>(tok, s). length s)")
     (auto simp: le_imp_less_Suc length_dropWhile_le)

definition re_split :: "string \<Rightarrow> string list" where
  "re_split field = re_split_from [] field"

section \<open>Exceptions and the device descriptor\<close>

text \<open>
  The exceptions the modelled code can end with. \<open>AttenuatorException\<close> is the class the
  source declares, with its message; the others are Python's own.
\<close>

datatype exception =
    KeyError string
  | IndexError
  | TypeError string
  | ValueError string
  | OverflowError string
  | OSError string
  | URLError string
  | AttenuatorException string

text \<open>The message of the \<^verbatim>\<open>TypeError\<close> raised when a text is given where \<^verbatim>\<open>bytes\<close> are
  needed: by \<^verbatim>\<open>socket.sendto\<close> for a text payload, and by \<^verbatim>\<open>in\<close> for a text sought in
  \<^verbatim>\<open>bytes\<close>.\<close>

definition bytes_like_required :: string where
  "bytes_like_required =
     ''a bytes-like object is required, not '' @ [CHR 0x27] @ ''str'' @ [CHR 0x27]"

text \<open>The dictionary \<^verbatim>\<open>device_details\<close>, from field names to field values.\<close>

type_synonym details = "string \<rightharpoonup> string"

text \<open>An \<^verbatim>\<open>Attenuator\<close> object: the seven fields of the descriptor, the base URL built
  from two of them, and the optional password (\<^verbatim>\<open>None\<close> after construction).\<close>

record attenuator =
  model_name :: string
  serial_number :: string
  ip_address :: string
  port :: string
  subnet_mask :: string
  network_gateway :: string
  mac_address :: string
  url :: string
  password :: "string option"

text \<open>\<^verbatim>\<open>Attenuator.__init__\<close>: seven lookups in the source's order, the first missing key
  raising \<^verbatim>\<open>KeyError\<close>. The values are texts, so \<^verbatim>\<open>%s\<close> inserts them unchanged.\<close>

definition Attenuator_init :: "details \<Rightarrow> exception + attenuator" where
  "Attenuator_init device_details =
     (case device_details ''Model Name'' of
        None \<Rightarrow> Inl (KeyError ''Model Name'')
      | Some mn \<Rightarrow>
     (case device_details ''Serial Number'' of
        None \<Rightarrow> Inl (KeyError ''Serial Number'')
      | Some sn \<Rightarrow>
     (case device_details ''IP Address'' of
        None \<Rightarrow> Inl (KeyError ''IP Address'')
      | Some ip \<Rightarrow>
     (case device_details ''Port'' of
        None \<Rightarrow> Inl (KeyError ''Port'')
      | Some po \<Rightarrow>
     (case device_details ''Subnet Mask'' of
        None \<Rightarrow> Inl (KeyError ''Subnet Mask'')
      | Some sm \<Rightarrow>
     (case device_details ''Network Gateway'' of
        None \<Rightarrow> Inl (KeyError ''Network Gateway'')
      | Some gw \<Rightarrow>
     (case device_details ''Mac Address'' of
        None \<Rightarrow> Inl (KeyError ''Mac Address'')
      | Some mac \<Rightarrow>
          Inr \<lparr>model_name = mn, serial_number = sn, ip_address = ip, port = po,
               subnet_mask = sm, network_gateway = gw, mac_address = mac,
               url = ''http://'' @ ip @ '':'' @ po @ ''/'',
               password = None\<rparr>)))))))"

text \<open>The seven keys \<^verbatim>\<open>__init__\<close> reads.\<close>

definition required_fields :: "string list" where
  "required_fields = [''Model Name'', ''Serial Number'', ''IP Address'', ''Port'',
                      ''Subnet Mask'', ''Network Gateway'', ''Mac Address'']"

section \<open>Parsing the discovery replies\<close>

text \<open>
  The inner loop \<^verbatim>\<open>for i in range(0, len(split_fields), 2)\<close>: the token at \<open>i\<close> is a key
  and the one at \<open>i + 1\<close> its value, both stripped; a last key with no value after it
  raises \<^verbatim>\<open>IndexError\<close>.
\<close>

fun assign_pairs :: "details \<Rightarrow> string list \<Rightarrow> exception + details" where
  "assign_pairs d [] = Inr d"
| "assign_pairs d [k] = Inl IndexError"
| "assign_pairs d (k # v # rest) = assign_pairs (d(strip k \<mapsto> strip v)) rest"

text \<open>
  The body of \<^verbatim>\<open>for field in device.splitlines()\<close> for one line. Its first step is
  \<^verbatim>\<open>'IP Address' in field\<close>, a text sought in the line: on a line of \<^verbatim>\<open>bytes\<close> it raises
  \<^verbatim>\<open>TypeError\<close>, and nothing else of the body runs.
\<close>

fun parse_field :: "details \<Rightarrow> pyval \<Rightarrow> exception + details" where
  "parse_field d (Bytes field) = Inl (TypeError bytes_like_required)"
| "parse_field d (Str field) =
     (if contains ''IP Address'' field then
        (case match_ip_address field of
           Some (g1, g2) \<Rightarrow> Inr (d(''IP Address'' \<mapsto> g1, ''Port'' \<mapsto> g2))
         | None \<Rightarrow> Inr d)
      else assign_pairs d (re_split field))"

fun parse_fields :: "details \<Rightarrow> pyval list \<Rightarrow> exception + details" where
  "parse_fields d [] = Inr d"
| "parse_fields d (field # rest) =
     (case parse_field d field of
        Inl e \<Rightarrow> Inl e
      | Inr d' \<Rightarrow> parse_fields d' rest)"

text \<open>The body of the \<^verbatim>\<open>try\<close> for one reply, up to the construction of the object.\<close>

definition parse_device :: "pyval \<Rightarrow> exception + attenuator" where
  "parse_device device =
     (case parse_fields Map.empty (splitlines device) of
        Inl e \<Rightarrow> Inl e
      | Inr device_details \<Rightarrow> Attenuator_init device_details)"

text \<open>
  The loop \<^verbatim>\<open>for device in broadcast_responses\<close> with its \<^verbatim>\<open>try\<close>/\<^verbatim>\<open>except\<close>: the state
  is the list \<^verbatim>\<open>discovered_devices\<close> and the lines printed so far.
\<close>

fun parse_loop ::
  "pyval list \<Rightarrow> attenuator list \<times> string list \<Rightarrow> attenuator list \<times> string list" where
  "parse_loop [] st = st"
| "parse_loop (device # rest) (discovered_devices, out) =
     (case parse_device device of
        Inr a \<Rightarrow> parse_loop rest (discovered_devices @ [a], out)
      | Inl e \<Rightarrow>
          parse_loop rest (discovered_devices, out @ [''Invalid Device Description Response'']))"

definition parse_responses :: "pyval list \<Rightarrow> attenuator list \<times> string list" where
  "parse_responses broadcast_responses = parse_loop broadcast_responses ([], [])"

section \<open>The command client\<close>

text \<open>
  The HTTP library is outside the program: \<open>urlopen\<close> stands for
  \<^verbatim>\<open>urllib.request.urlopen(request, timeout=t).read()\<close>, giving for a request and a timeout
  in seconds either the value read or the exception the library raises. The value read
  is the body of the response, which the library gives as \<^verbatim>\<open>bytes\<close>: \<open>Bytes b\<close> for the
  body \<open>b\<close>.
\<close>

datatype request = Request string

type_synonym transport = "request \<Rightarrow> nat \<Rightarrow> exception + pyval"

text \<open>\<^verbatim>\<open>Attenuator._send_http_cmd\<close>. The test \<^verbatim>\<open>if self.password:\<close> is Python's truth
  test: neither \<^verbatim>\<open>None\<close> nor the empty text passes it. What is returned is what was
  read, unchanged.\<close>

definition send_http_cmd :: "transport \<Rightarrow> attenuator \<Rightarrow> string \<Rightarrow> exception + pyval" where
  "send_http_cmd urlopen self command =
     (let http_cmd =
        (case password self of
           None \<Rightarrow> url self @ command
         | Some pw \<Rightarrow>
             if pw \<noteq> [] then url self @ pw @ '';'' @ command
             else url self @ command)
      in urlopen (Request http_cmd) 60)"

text \<open>
  The typed wrappers. The argument of each setter is the text that \<^verbatim>\<open>%s\<close> renders for
  the value passed (\<^verbatim>\<open>str(value)\<close>); a wrapper that returns normally returns \<^verbatim>\<open>None\<close>,
  here \<open>Inr ()\<close>. Each compares the value read with a text literal, \<^verbatim>\<open>'0'\<close>, \<^verbatim>\<open>'1'\<close> or
  \<^verbatim>\<open>'2'\<close>, by \<^verbatim>\<open>==\<close> or \<^verbatim>\<open>!=\<close>: the literal is \<open>Str ''0''\<close> and so on.
\<close>

definition set_attenuation :: "transport \<Rightarrow> attenuator \<Rightarrow> string \<Rightarrow> exception + unit" where
  "set_attenuation urlopen self db =
     (case send_http_cmd urlopen self ('':SETATT='' @ db) of
        Inl e \<Rightarrow> Inl e
      | Inr return_code \<Rightarrow>
          if return_code = Str ''0'' then
            Inl (AttenuatorException ''Command to set Attenuation Failed'')
          else if return_code = Str ''2'' then
            Inl (AttenuatorException
              (''Requested attenuation was higher than the allowed range, '' @
               ''the attenuation was set to the device'' @ [CHR 0x27] @ ''s maximum''))
          else Inr ())"

definition set_startup_attenuation_value ::
  "transport \<Rightarrow> attenuator \<Rightarrow> string \<Rightarrow> exception + unit" where
  "set_startup_attenuation_value urlopen self db =
     (case send_http_cmd urlopen self ('':STARTUPATT:VALUE:'' @ db) of
        Inl e \<Rightarrow> Inl e
      | Inr return_code \<Rightarrow>
          if return_code = Str ''0'' then
            Inl (AttenuatorException ''Command to set Attenuation Failed'')
          else if return_code = Str ''2'' then
            Inl (AttenuatorException
              (''Requested attenuation was higher than the allowed range,'' @
               ''the attenuation was set to the device'' @ [CHR 0x27] @ ''s maximum''))
          else Inr ())"

definition set_startup_attenuation_mode ::
  "transport \<Rightarrow> attenuator \<Rightarrow> string \<Rightarrow> exception + unit" where
  "set_startup_attenuation_mode urlopen self start_mode =
     (case send_http_cmd urlopen self (''STARTUPATT:INDICATOR:'' @ start_mode) of
        Inl e \<Rightarrow> Inl e
      | Inr return_code \<Rightarrow>
          if return_code \<noteq> Str ''1'' then
            Inl (AttenuatorException ''Command to change attenuator startup mode failed'')
          else Inr ())"

definition hop_mode_set_points ::
  "transport \<Rightarrow> attenuator \<Rightarrow> string \<Rightarrow> exception + unit" where
  "hop_mode_set_points urlopen self points =
     (case send_http_cmd urlopen self ('':HOP:POINTS:'' @ points) of
        Inl e \<Rightarrow> Inl e
      | Inr return_code \<Rightarrow>
          if return_code \<noteq> Str ''1'' then
            Inl (AttenuatorException ''Command to set number of hop points failed'')
          else Inr ())"

definition hop_mode_set_direction ::
  "transport \<Rightarrow> attenuator \<Rightarrow> string \<Rightarrow> exception + unit" where
  "hop_mode_set_direction urlopen self direction =
     (case send_http_cmd urlopen self ('':HOP:DIRECTION:'' @ direction) of
        Inl e \<Rightarrow> Inl e
      | Inr return_code \<Rightarrow>
          if return_code \<noteq> Str ''1'' then
            Inl (AttenuatorException ''Command to set hop direction failed'')
          else Inr ())"

definition hop_mode_set_indexed_point ::
  "transport \<Rightarrow> attenuator \<Rightarrow> string \<Rightarrow> exception + unit" where
  "hop_mode_set_indexed_point urlopen self point =
     (case send_http_cmd urlopen self ('':HOP:POINT:'' @ point) of
        Inl e \<Rightarrow> Inl e
      | Inr return_code \<Rightarrow>
          if return_code \<noteq> Str ''1'' then
            Inl (AttenuatorException ''Command to set indexed point failed'')
          else Inr ())"

definition hop_mode_set_point_dwell_time_units ::
  "transport \<Rightarrow> attenuator \<Rightarrow> string \<Rightarrow> exception + unit" where
  "hop_mode_set_point_dwell_time_units urlopen self units =
     (case send_http_cmd urlopen self ('':HOP:DWELL_UNIT:'' @ units) of
        Inl e \<Rightarrow> Inl e
      | Inr return_code \<Rightarrow>
          if return_code \<noteq> Str ''1'' then
            Inl (AttenuatorException ''Command to set dwell time units failed'')
          else Inr ())"

definition hop_mode_set_point_dwell_time ::
  "transport \<Rightarrow> attenuator \<Rightarrow> string \<Rightarrow> exception + unit" where
  "hop_mode_set_point_dwell_time urlopen self dwell_time =
     (case send_http_cmd urlopen self ('':HOP:DWELL:'' @ dwell_time) of
        Inl e \<Rightarrow> Inl e
      | Inr return_code \<Rightarrow>
          if return_code \<noteq> Str ''1'' then
            Inl (AttenuatorException ''Command to set dwell time failed'')
          else Inr ())"

definition hop_mode_set_point_attenuation ::
  "transport \<Rightarrow> attenuator \<Rightarrow> string \<Rightarrow> exception + unit" where
  "hop_mode_set_point_attenuation urlopen self db =
     (case send_http_cmd urlopen self ('':HOP:ATT:'' @ db) of
        Inl e \<Rightarrow> Inl e
      | Inr return_code \<Rightarrow>
          if return_code \<noteq> Str ''1'' then
            Inl (AttenuatorException ''Command to set point attenuation failed'')
          else Inr ())"

definition set_hop_mode ::
  "transport \<Rightarrow> attenuator \<Rightarrow> string \<Rightarrow> exception + unit" where
  "set_hop_mode urlopen self mode =
     (case send_http_cmd urlopen self ('':HOP:MODE:'' @ mode) of
        Inl e \<Rightarrow> Inl e
      | Inr return_code \<Rightarrow>
          if return_code \<noteq> Str ''1'' then
            Inl (AttenuatorException ''Command to set hop mode failed'')
          else Inr ())"

definition sweep_mode_set_sweep_direction ::
  "transport \<Rightarrow> attenuator \<Rightarrow> string \<Rightarrow> exception + unit" where
  "sweep_mode_set_sweep_direction urlopen self direction =
     (case send_http_cmd urlopen self ('':SWEEP:DIRECTION:'' @ direction) of
        Inl e \<Rightarrow> Inl e
      | Inr return_code \<Rightarrow>
          if return_code \<noteq> Str ''1'' then
            Inl (AttenuatorException ''Command to set sweep direction failed'')
          else Inr ())"

definition sweep_mode_set_dwell_time_units ::
  "transport \<Rightarrow> attenuator \<Rightarrow> string \<Rightarrow> exception + unit" where
  "sweep_mode_set_dwell_time_units urlopen self units =
     (case send_http_cmd urlopen self ('':SWEEP:DWELL_UNIT:'' @ units) of
        Inl e \<Rightarrow> Inl e
      | Inr return_code \<Rightarrow>
          if return_code \<noteq> Str ''1'' then
            Inl (AttenuatorException ''Command to set sweep dwell time units failed'')
          else Inr ())"

definition sweep_mode_set_dwell_time ::
  "transport \<Rightarrow> attenuator \<Rightarrow> string \<Rightarrow> exception + unit" where
  "sweep_mode_set_dwell_time urlopen self dwell_time =
     (case send_http_cmd urlopen self ('':SWEEP:DWELL:'' @ dwell_time) of
        Inl e \<Rightarrow> Inl e
      | Inr return_code \<Rightarrow>
          if return_code \<noteq> Str ''1'' then
            Inl (AttenuatorException ''Command to set sweep dwell time failed'')
          else Inr ())"

definition sweep_mode_set_start_attenuation ::
  "transport \<Rightarrow> attenuator \<Rightarrow> string \<Rightarrow> exception + unit" where
  "sweep_mode_set_start_attenuation urlopen self db =
     (case send_http_cmd urlopen self ('':SWEEP:START:'' @ db) of
        Inl e \<Rightarrow> Inl e
      | Inr return_code \<Rightarrow>
          if return_code \<noteq> Str ''1'' then
            Inl (AttenuatorException ''Command to set sweep start attenuation failed'')
          else Inr ())"

definition sweep_mode_set_stop_attenuation ::
  "transport \<Rightarrow> attenuator \<Rightarrow> string \<Rightarrow> exception + unit" where
  "sweep_mode_set_stop_attenuation urlopen self db =
     (case send_http_cmd urlopen self ('':SWEEP:STOP:'' @ db) of
        Inl e \<Rightarrow> Inl e
      | Inr return_code \<Rightarrow>
          if return_code \<noteq> Str ''1'' then
            Inl (AttenuatorException ''Command to set sweep stop attenuation failed'')
          else Inr ())"

definition sweep_mode_set_step_size ::
  "transport \<Rightarrow> attenuator \<Rightarrow> string \<Rightarrow> exception + unit" where
  "sweep_mode_set_step_size urlopen self db =
     (case send_http_cmd urlopen self ('':SWEEP:STEPSIZE:'' @ db) of
        Inl e \<Rightarrow> Inl e
      | Inr return_code \<Rightarrow>
          if return_code \<noteq> Str ''1'' then
            Inl (AttenuatorException ''Command to set sweep step size failed'')
          else Inr ())"

definition set_sweep_mode ::
  "transport \<Rightarrow> attenuator \<Rightarrow> string \<Rightarrow> exception + unit" where
  "set_sweep_mode urlopen self mode =
     (case send_http_cmd urlopen self ('':SWEEP:MODE:'' @ mode) of
        Inl e \<Rightarrow> Inl e
      | Inr return_code \<Rightarrow>
          if return_code \<noteq> Str ''1'' then
            Inl (AttenuatorException ''Command to set sweep mode failed'')
          else Inr ())"

text \<open>The queries return what was read, unchanged.\<close>

definition get_attenuation :: "transport \<Rightarrow> attenuator \<Rightarrow> exception + pyval" where
  "get_attenuation urlopen self = send_http_cmd urlopen self '':ATT?''"

definition get_startup_attenuation_mode :: "transport \<Rightarrow> attenuator \<Rightarrow> exception + pyval" where
  "get_startup_attenuation_mode urlopen self = send_http_cmd urlopen self '':STARTUPATT:INDICATOR?''"

definition get_startup_attenuation_value :: "transport \<Rightarrow> attenuator \<Rightarrow> exception + pyval" where
  "get_startup_attenuation_value urlopen self = send_http_cmd urlopen self '':STARTUPATT:VALUE?''"

definition get_firmware_version :: "transport \<Rightarrow> attenuator \<Rightarrow> exception + pyval" where
  "get_firmware_version urlopen self = send_http_cmd urlopen self '':FIRMWARE?''"

definition hop_mode_get_points :: "transport \<Rightarrow> attenuator \<Rightarrow> exception + pyval" where
  "hop_mode_get_points urlopen self = send_http_cmd urlopen self '':HOP:POINTS?''"

definition hop_mode_get_direction :: "transport \<Rightarrow> attenuator \<Rightarrow> exception + pyval" where
  "hop_mode_get_direction urlopen self = send_http_cmd urlopen self '':HOP:DIRECTION?''"

definition hop_mode_get_indexed_point :: "transport \<Rightarrow> attenuator \<Rightarrow> exception + pyval" where
  "hop_mode_get_indexed_point urlopen self = send_http_cmd urlopen self '':HOP:POINT?''"

definition hop_mode_get_point_dwell_time :: "transport \<Rightarrow> attenuator \<Rightarrow> exception + pyval" where
  "hop_mode_get_point_dwell_time urlopen self = send_http_cmd urlopen self '':HOP:DWELL?''"

definition hop_mode_get_point_attenuation :: "transport \<Rightarrow> attenuator \<Rightarrow> exception + pyval" where
  "hop_mode_get_point_attenuation urlopen self = send_http_cmd urlopen self '':HOP:ATT?''"

definition sweep_mode_get_sweep_direction :: "transport \<Rightarrow> attenuator \<Rightarrow> exception + pyval" where
  "sweep_mode_get_sweep_direction urlopen self = send_http_cmd urlopen self '':SWEEP:DIRECTION?''"

definition sweep_mode_get_dwell_time :: "transport \<Rightarrow> attenuator \<Rightarrow> exception + pyval" where
  "sweep_mode_get_dwell_time urlopen self = send_http_cmd urlopen self '':SWEEP:DWELL?''"

definition sweep_mode_get_start_attenuation :: "transport \<Rightarrow> attenuator \<Rightarrow> exception + pyval" where
  "sweep_mode_get_start_attenuation urlopen self = send_http_cmd urlopen self '':SWEEP:START?''"

definition sweep_mode_get_stop_attenuation :: "transport \<Rightarrow> attenuator \<Rightarrow> exception + pyval" where
  "sweep_mode_get_stop_attenuation urlopen self = send_http_cmd urlopen self '':SWEEP:STOP?''"

definition sweep_mode_get_step_size :: "transport \<Rightarrow> attenuator \<Rightarrow> exception + pyval" where
  "sweep_mode_get_step_size urlopen self = send_http_cmd urlopen self '':SWEEP:STEPSIZE?''"

section \<open>The discovery service\<close>

text \<open>
  The socket library, the clock and the network are outside the program. A \<open>world\<close>
  holds what they will answer and records what the program asked of them:
  \<^item> \<open>calls\<close>: the socket calls made so far, in program order, a call that raises
    included;
  \<^item> \<open>opened\<close>: how many sockets have been created (a socket is named by its number);
  \<^item> \<open>bind_error\<close>: for a port, the exception \<^verbatim>\<open>bind\<close> raises on it, if any;
  \<^item> \<open>clock\<close>: the values the coming calls of \<^verbatim>\<open>time.time()\<close> return;
  \<^item> \<open>float_add\<close> and \<open>float_sub\<close>: the results of \<^verbatim>\<open>+\<close> on a time and a whole number of
    seconds (or the exception it raises) and of \<^verbatim>\<open>-\<close> on two times; their rounding is not
    modelled, so nothing is assumed of them;
  \<^item> \<open>inbox\<close>: what the coming calls of \<^verbatim>\<open>select\<close> find: \<open>None\<close> when the wait ends
    with nothing to read, \<open>Some d\<close> when a datagram with the bytes \<open>d\<close> is ready;
  \<^item> \<open>stdout\<close>: the lines printed.
  Both scripts are finite: a run that asks for more than they hold has no result
  (\<open>None\<close>), which is how a run that does not come back is represented.
\<close>

datatype call =
    Socket_call nat
  | Bind_call nat nat
  | Setsockopt_call nat
  | Sendto_call nat pyval string nat
  | Select_call nat real
  | Recvfrom_call nat nat

record world =
  calls :: "call list"
  opened :: nat
  bind_error :: "nat \<Rightarrow> exception option"
  clock :: "real list"
  float_add :: "real \<Rightarrow> int \<Rightarrow> exception + real"
  float_sub :: "real \<Rightarrow> real \<Rightarrow> real"
  inbox :: "string option list"
  stdout :: "string list"

definition socket :: "world \<Rightarrow> nat \<times> world" where
  "socket w = (opened w, w\<lparr>calls := calls w @ [Socket_call (opened w)],
                             opened := Suc (opened w)\<rparr>)"

definition bind :: "nat \<Rightarrow> nat \<Rightarrow> world \<Rightarrow> exception option \<times> world" where
  "bind s p w = (bind_error w p, w\<lparr>calls := calls w @ [Bind_call s p]\<rparr>)"

definition setsockopt :: "nat \<Rightarrow> world \<Rightarrow> world" where
  "setsockopt s w = w\<lparr>calls := calls w @ [Setsockopt_call s]\<rparr>"

text \<open>\<^verbatim>\<open>s.sendto(msg, addr)\<close>: the payload has to be \<^verbatim>\<open>bytes\<close>; for a text the call raises
  \<^verbatim>\<open>TypeError\<close> and nothing is sent.\<close>

definition sendto :: "nat \<Rightarrow> pyval \<Rightarrow> string \<times> nat \<Rightarrow> world \<Rightarrow> exception option \<times> world" where
  "sendto s msg addr w =
     (case msg of
        Str t \<Rightarrow> Some (TypeError bytes_like_required)
      | Bytes b \<Rightarrow> None,
      w\<lparr>calls := calls w @ [Sendto_call s msg (fst addr) (snd addr)]\<rparr>)"

definition time_time :: "world \<Rightarrow> (real \<times> world) option" where
  "time_time w = (case clock w of [] \<Rightarrow> None | t # ts \<Rightarrow> Some (t, w\<lparr>clock := ts\<rparr>))"

text \<open>\<^verbatim>\<open>select.select([s], [], [], t)\<close>: a negative time \<open>t\<close> raises \<^verbatim>\<open>ValueError\<close>; otherwise
  the result says whether \<open>s\<close> is ready for reading when the wait ends. A datagram found
  ready stays in the inbox until it is read.\<close>

definition select :: "nat \<Rightarrow> real \<Rightarrow> world \<Rightarrow> ((exception + bool) \<times> world) option" where
  "select s t w =
     (if t < 0 then
        Some (Inl (ValueError ''timeout must be non-negative''),
              w\<lparr>calls := calls w @ [Select_call s t]\<rparr>)
      else
        (case inbox w of
           [] \<Rightarrow> None
         | None # rest \<Rightarrow>
             Some (Inr False, w\<lparr>calls := calls w @ [Select_call s t], inbox := rest\<rparr>)
         | Some d # rest \<Rightarrow>
             Some (Inr True, w\<lparr>calls := calls w @ [Select_call s t]\<rparr>)))"

text \<open>\<^verbatim>\<open>s.recvfrom(n)\<close>, called on a ready socket: the first \<open>n\<close> bytes of the next
  datagram, as \<^verbatim>\<open>bytes\<close>; what is beyond them is lost.\<close>

definition recvfrom :: "nat \<Rightarrow> nat \<Rightarrow> world \<Rightarrow> (pyval \<times> world) option" where
  "recvfrom s n w =
     (case inbox w of
        Some d # rest \<Rightarrow>
          Some (Bytes (take n d),
                w\<lparr>calls := calls w @ [Recvfrom_call s n], inbox := rest\<rparr>)
      | _ \<Rightarrow> None)"

definition MINI_CIRCUITS_LISTENTING_PORT :: nat where
  "MINI_CIRCUITS_LISTENTING_PORT = 4950"

definition MINI_CIRCUITS_ANSWERING_PORT :: nat where
  "MINI_CIRCUITS_ANSWERING_PORT = 4951"

definition SOCKET_BUFFER_SIZE :: nat where
  "SOCKET_BUFFER_SIZE = 1024"

text \<open>
  The loop \<^verbatim>\<open>while time.time() < timeout\<close>: one clock reading for the test, one for the
  time left, then the wait and, on a ready socket, the read. An exception of the wait
  ends the loop, and the call, with it.
\<close>

function receive_loop ::
  "nat \<Rightarrow> real \<Rightarrow> pyval list \<Rightarrow> world \<Rightarrow> (exception + pyval list) option \<times> world" where
  "receive_loop receiver_socket timeout broadcast_responses w =
     (case time_time w of
        None \<Rightarrow> (None, w)
      | Some (now, w1) \<Rightarrow>
          if now < timeout then
            (case time_time w1 of
               None \<Rightarrow> (None, w1)
             | Some (now', w2) \<Rightarrow>
                 (case select receiver_socket (float_sub w2 timeout now') w2 of
                    None \<Rightarrow> (None, w2)
                  | Some (Inl e, w3) \<Rightarrow> (Some (Inl e), w3)
                  | Some (Inr ready, w3) \<Rightarrow>
                      if ready then
                        (case recvfrom receiver_socket SOCKET_BUFFER_SIZE w3 of
                           None \<Rightarrow> (None, w3)
                         | Some (data, w4) \<Rightarrow>
                             receive_loop receiver_socket timeout
                               (broadcast_responses @ [data]) w4)
                      else receive_loop receiver_socket timeout broadcast_responses w3))
          else (Some (Inr broadcast_responses), w1))"
  by pat_completeness auto
termination
proof (relation "measure (\<lambda>(s, t, rs, w). length (clock w))", goal_cases)
  case 1
  show ?case by simp
next
  case (2 s t rs w x2 now w1 x2a now' w2 x2b r w3 ready x2c data w4)
  then show ?case
    by (auto simp: time_time_def select_def recvfrom_def
             split: list.splits option.splits if_splits)
next
  case (3 s t rs w x2 now w1 x2a now' w2 x2b r w3 ready)
  then show ?case
    by (auto simp: time_time_def select_def split: list.splits option.splits if_splits)
qed

declare receive_loop.simps [simp del]

text \<open>\<^verbatim>\<open>DeviceManager.discover_devices\<close>. The query \<^verbatim>\<open>'MCLDAT?' + '\n'\<close> is a text.\<close>

definition discover_devices ::
  "int \<Rightarrow> world \<Rightarrow> (exception + attenuator list) option \<times> world" where
  "discover_devices discovery_time w0 =
     (let (broadcast_socket, w1) = socket w0;
          (failed, w2) = bind broadcast_socket 0 w1
      in case failed of
           Some e \<Rightarrow> (Some (Inl e), w2)
         | None \<Rightarrow>
     (let w3 = setsockopt broadcast_socket w2;
          msg = Str (''MCLDAT?'' @ [CHR 0x0A]);
          (failed, w4) =
            sendto broadcast_socket msg (''<broadcast>'', MINI_CIRCUITS_LISTENTING_PORT) w3
      in case failed of
           Some e \<Rightarrow> (Some (Inl e), w4)
         | None \<Rightarrow>
     (let (receiver_socket, w5) = socket w4;
          (failed, w6) = bind receiver_socket MINI_CIRCUITS_ANSWERING_PORT w5
      in case failed of
           Some e \<Rightarrow> (Some (Inl e), w6)
         | None \<Rightarrow>
     (case time_time w6 of
        None \<Rightarrow> (None, w6)
      | Some (now, w7) \<Rightarrow>
     (case float_add w7 now discovery_time of
        Inl e \<Rightarrow> (Some (Inl e), w7)
      | Inr timeout \<Rightarrow>
     (case receive_loop receiver_socket timeout [] w7 of
        (None, w8) \<Rightarrow> (None, w8)
      | (Some (Inl e), w8) \<Rightarrow> (Some (Inl e), w8)
      | (Some (Inr broadcast_responses), w8) \<Rightarrow>
     (let (discovered_devices, out) = parse_responses broadcast_responses
      in (Some (Inr discovered_devices), w8\<lparr>stdout := stdout w8 @ out\<rparr>))))))))"

section \<open>The splitting of a line, as the specification words it\<close>



section \<open>Tables and examples used by the theorems\<close>

text \<open>
  The fifteen discrete-setting wrappers of the source, each with the command text it
  puts before its argument and the message of the exception it raises.
\<close>

definition discrete_setters ::
  "(string \<times> string \<times> (transport \<Rightarrow> attenuator \<Rightarrow> string \<Rightarrow> exception + unit)) list" where
  "discrete_setters =
     [(''STARTUPATT:INDICATOR:'', ''Command to change attenuator startup mode failed'',
         set_startup_attenuation_mode),
      ('':HOP:POINTS:'', ''Command to set number of hop points failed'', hop_mode_set_points),
      ('':HOP:DIRECTION:'', ''Command to set hop direction failed'', hop_mode_set_direction),
      ('':HOP:POINT:'', ''Command to set indexed point failed'', hop_mode_set_indexed_point),
      ('':HOP:DWELL_UNIT:'', ''Command to set dwell time units failed'',
         hop_mode_set_point_dwell_time_units),
      ('':HOP:DWELL:'', ''Command to set dwell time failed'', hop_mode_set_point_dwell_time),
      ('':HOP:ATT:'', ''Command to set point attenuation failed'',
         hop_mode_set_point_attenuation),
      ('':HOP:MODE:'', ''Command to set hop mode failed'', set_hop_mode),
      ('':SWEEP:DIRECTION:'', ''Command to set sweep direction failed'',
         sweep_mode_set_sweep_direction),
      ('':SWEEP:DWELL_UNIT:'', ''Command to set sweep dwell time units failed'',
         sweep_mode_set_dwell_time_units),
      ('':SWEEP:DWELL:'', ''Command to set sweep dwell time failed'', sweep_mode_set_dwell_time),
      ('':SWEEP:START:'', ''Command to set sweep start attenuation failed'',
         sweep_mode_set_start_attenuation),
      ('':SWEEP:STOP:'', ''Command to set sweep stop attenuation failed'',
         sweep_mode_set_stop_attenuation),
      ('':SWEEP:STEPSIZE:'', ''Command to set sweep step size failed'',
         sweep_mode_set_step_size),
      ('':SWEEP:MODE:'', ''Command to set sweep mode failed'', set_sweep_mode)]"

text \<open>A device at 192.168.1.50, port 80: its parsed fields and the object built from them.\<close>

definition example_details :: details where
  "example_details =
     [''Model Name'' \<mapsto> ''RCDAT-6000-30'', ''Serial Number'' \<mapsto> ''11406170049'',
      ''IP Address'' \<mapsto> ''192.168.1.50'', ''Port'' \<mapsto> ''80'',
      ''Subnet Mask'' \<mapsto> ''255.255.255.0'', ''Network Gateway'' \<mapsto> ''192.168.1.1'',
      ''Mac Address'' \<mapsto> ''D0-73-7F-86-5A-B1'']"

definition example_device :: attenuator where
  "example_device =
     \<lparr>model_name = ''RCDAT-6000-30'', serial_number = ''11406170049'',
      ip_address = ''192.168.1.50'', port = ''80'', subnet_mask = ''255.255.255.0'',
      network_gateway = ''192.168.1.1'', mac_address = ''D0-73-7F-86-5A-B1'',
      url = ''http://192.168.1.50:80/'', password = None\<rparr>"

text \<open>
  The characters of some replies, to be taken as a text (\<open>Str\<close>) or as the bytes of a
  datagram (\<open>Bytes\<close>): the reply of that device to the discovery query; one with a line
  that has a key and no value; one without the line of the MAC address; one whose
  combined line has two dots for an address and which ends with a line giving the port
  as a word; one with the combined line of address 10.0.0.5 and port 4951.
\<close>

definition example_reply :: string where
  "example_reply =
     ''Model Name: RCDAT-6000-30\<newline>Serial Number: 11406170049\<newline>'' @
     ''IP Address=192.168.1.50  Port: 80\<newline>Subnet Mask=255.255.255.0\<newline>'' @
     ''Network Gateway=192.168.1.1\<newline>Mac Address=D0-73-7F-86-5A-B1\<newline>''"

definition malformed_reply :: string where
  "malformed_reply = ''Model Name: RCDAT-6000-30\<newline>no delimiter here\<newline>''"

definition incomplete_reply :: string where
  "incomplete_reply =
     ''Model Name: RCDAT-6000-30\<newline>Serial Number: 11406170049\<newline>'' @
     ''IP Address=192.168.1.50  Port: 80\<newline>Subnet Mask=255.255.255.0\<newline>'' @
     ''Network Gateway=192.168.1.1\<newline>''"



text \<open>
  Four worlds, with exact arithmetic on times. In the first no datagram arrives and the
  clock passes the deadline at once; in the second the answering port is taken; in the
  third the example device answers twice, with a malformed reply and an empty wait in
  between; in the fourth the clock passes a deadline of 30 between the test of the loop
  and the computation of the time left.
\<close>

definition quiet_world :: world where
  "quiet_world =
     \<lparr>calls = [], opened = 0, bind_error = (\<lambda>p. None), clock = [0, 31],
      float_add = (\<lambda>t n. Inr (t + real_of_int n)), float_sub = (\<lambda>a b. a - b),
      inbox = [], stdout = []\<rparr>"

definition busy_port_world :: world where
  "busy_port_world =
     \<lparr>calls = [], opened = 0,
      bind_error = (\<lambda>p. if p = 4951 then Some (OSError ''Address already in use'') else None),
      clock = [0, 31],
      float_add = (\<lambda>t n. Inr (t + real_of_int n)), float_sub = (\<lambda>a b. a - b),
      inbox = [], stdout = []\<rparr>"

definition two_device_world :: world where
  "two_device_world =
     \<lparr>calls = [], opened = 0, bind_error = (\<lambda>p. None),
      clock = [0, 1, 1, 2, 2, 3, 3, 4, 4, 31],
      float_add = (\<lambda>t n. Inr (t + real_of_int n)), float_sub = (\<lambda>a b. a - b),
      inbox = [Some example_reply, Some malformed_reply, None, Some example_reply],
      stdout = []\<rparr>"

definition late_clock_world :: world where
  "late_clock_world =
     \<lparr>calls = [], opened = 2, bind_error = (\<lambda>p. None), clock = [29, 31],
      float_add = (\<lambda>t n. Inr (t + real_of_int n)), float_sub = (\<lambda>a b. a - b),
      inbox = [None], stdout = []\<rparr>"

section \<open>Return codes of the setters\<close>

lemma example_device_init: "Attenuator_init example_details = Inr example_device"
  by (simp add: Attenuator_init_def example_details_def example_device_def)

text \<open>
  Claim C1, where the code departs from it. The value read is \<^verbatim>\<open>bytes\<close>, and no \<^verbatim>\<open>bytes\<close>
  value equals the texts \<^verbatim>\<open>'0'\<close> and \<^verbatim>\<open>'2'\<close> that \<open>set_attenuation\<close> and
  \<open>set_startup_attenuation_value\<close> compare it with: whatever body the device answers, both
  return normally, also for the bodies \<open>0\<close> and \<open>2\<close>, for which the claim has them raise.
\<close>

theorem attenuation_setters_never_raise:
  "set_attenuation (\<lambda>req t. Inr (Bytes body)) self db = Inr () \<and>
   set_startup_attenuation_value (\<lambda>req t. Inr (Bytes body)) self db = Inr () \<and>
   set_attenuation (\<lambda>req t. Inr (Bytes ''2'')) example_device ''100.0'' = Inr () \<and>
   set_attenuation (\<lambda>req t. Inr (Bytes ''0'')) example_device ''100.0'' = Inr ()"
  by (simp add: set_attenuation_def set_startup_attenuation_value_def send_http_cmd_def)

text \<open>
  Claim C2, where the code departs from it. No \<^verbatim>\<open>bytes\<close> value equals the text \<^verbatim>\<open>'1'\<close>:
  whatever body the device answers, each of the fifteen discrete-setting wrappers raises
  its exception, also for the body \<open>1\<close>, for which the claim has it return normally.
\<close>

theorem discrete_setters_always_raise:
  "map (\<lambda>(cmd, msg, op). op (\<lambda>req t. Inr (Bytes body)) self arg) discrete_setters =
     map (\<lambda>(cmd, msg, op). Inl (AttenuatorException msg)) discrete_setters \<and>
   hop_mode_set_points (\<lambda>req t. Inr (Bytes ''1'')) example_device ''4'' =
     Inl (AttenuatorException ''Command to set number of hop points failed'')"
  by (simp add: discrete_setters_def send_http_cmd_def
        set_startup_attenuation_mode_def hop_mode_set_points_def
        hop_mode_set_direction_def hop_mode_set_indexed_point_def
        hop_mode_set_point_dwell_time_units_def hop_mode_set_point_dwell_time_def
        hop_mode_set_point_attenuation_def set_hop_mode_def
        sweep_mode_set_sweep_direction_def sweep_mode_set_dwell_time_units_def
        sweep_mode_set_dwell_time_def sweep_mode_set_start_attenuation_def
        sweep_mode_set_stop_attenuation_def sweep_mode_set_step_size_def set_sweep_mode_def)

section \<open>The request of a command\<close>

text \<open>
  Claim C4. For an object built from parsed fields and every command text \<open>c\<close>: the one
  request issued has the URL \<open>http://<ip>:<port>/\<close> followed by \<open>p;c\<close> when a password
  \<open>p\<close> is configured and by \<open>c\<close> unchanged when none is, and its timeout is 60 seconds.
  A password is configured when the field passes the source's truth test, that is when
  it holds a non-empty text; \<open>ip\<close> and \<open>port\<close> are the fields parsed from the reply.
\<close>

theorem send_http_cmd_request:
  assumes "Attenuator_init device_details = Inr a"
  shows "send_http_cmd urlopen (a\<lparr>password := pw\<rparr>) c =
           urlopen (Request (''http://'' @ ip_address a @ '':'' @ port a @ ''/'' @
                       (case pw of None \<Rightarrow> c
                        | Some p \<Rightarrow> if p = [] then c else p @ '';'' @ c))) 60
         \<and> device_details ''IP Address'' = Some (ip_address a)
         \<and> device_details ''Port'' = Some (port a) \<and> password a = None"
  using assms
  by (auto simp: Attenuator_init_def send_http_cmd_def split: option.splits)

text \<open>The example of the specification: password \<open>ABC\<close>, command \<open>:ATT?\<close>.\<close>

theorem send_http_cmd_request_witness:
  "send_http_cmd (\<lambda>req t. if req = Request ''http://192.168.1.50:80/ABC;:ATT?'' \<and> t = 60
                              then Inr (Bytes ''12.5'') else Inl (URLError ''not found''))
     (example_device\<lparr>password := Some ''ABC''\<rparr>) '':ATT?'' = Inr (Bytes ''12.5'') \<and>
   send_http_cmd (\<lambda>req t. if req = Request ''http://192.168.1.50:80/:ATT?'' \<and> t = 60
                              then Inr (Bytes ''12.5'') else Inl (URLError ''not found''))
     (example_device\<lparr>password := None\<rparr>) '':ATT?'' = Inr (Bytes ''12.5'')"
  using send_http_cmd_request [OF example_device_init,
          of "\<lambda>req t. if req = Request ''http://192.168.1.50:80/ABC;:ATT?'' \<and> t = 60
                              then Inr (Bytes ''12.5'') else Inl (URLError ''not found'')"
             "Some ''ABC''" "'':ATT?''"]
        send_http_cmd_request [OF example_device_init,
          of "\<lambda>req t. if req = Request ''http://192.168.1.50:80/:ATT?'' \<and> t = 60
                              then Inr (Bytes ''12.5'') else Inl (URLError ''not found'')"
             None "'':ATT?''"]
  by (simp add: example_device_def)

section \<open>Replies as they are received\<close>

lemmas text_defs = is_space_def is_digit_def is_linebreak_def strip_def
  match_ip_address_def re_split_def parse_device_def

lemmas socket_defs = socket_def bind_def setsockopt_def sendto_def
  MINI_CIRCUITS_LISTENTING_PORT_def MINI_CIRCUITS_ANSWERING_PORT_def

lemma example_reply_parses: "parse_device (Str example_reply) = Inr example_device"
  by (simp add: example_reply_def text_defs Attenuator_init_def example_device_def)

lemma malformed_reply_fails: "parse_device (Str malformed_reply) = Inl IndexError"
  by (simp add: malformed_reply_def text_defs)

lemma parse_loop_eq:
  "parse_loop rs (devs, out) =
     (devs @ concat (map (\<lambda>r. case parse_device r of Inr a \<Rightarrow> [a] | Inl e \<Rightarrow> []) rs),
      out @ concat (map (\<lambda>r. case parse_device r of Inr a \<Rightarrow> []
                               | Inl e \<Rightarrow> [''Invalid Device Description Response'']) rs))"
  by (induction rs arbitrary: devs out) (auto split: sum.splits)

lemma fst_parse_responses:
  "fst (parse_responses rs) =
     concat (map (\<lambda>r. case parse_device r of Inr a \<Rightarrow> [a] | Inl e \<Rightarrow> []) rs)"
  by (simp add: parse_responses_def parse_loop_eq)

lemma splitlines_from_not_Nil:
  "line \<noteq> [] \<or> s \<noteq> [] \<Longrightarrow> splitlines_from brk line s \<noteq> []"
proof (induction s arbitrary: line)
  case Nil
  then show ?case by simp
next
  case (Cons c cs)
  show ?case
  proof (cases "brk c")
    case True
    then show ?thesis by (cases cs) simp_all
  next
    case False
    have "splitlines_from brk (line @ [c]) cs \<noteq> []" by (rule Cons.IH) simp
    with False show ?thesis by simp
  qed
qed

lemma parse_device_bytes:
  "parse_device (Bytes b) =
     (if b = [] then Inl (KeyError ''Model Name'') else Inl (TypeError bytes_like_required))"
proof (cases "b = []")
  case True
  then show ?thesis by (simp add: parse_device_def Attenuator_init_def)
next
  case False
  then obtain l ls where "splitlines_from is_bytes_linebreak [] b = l # ls"
    using splitlines_from_not_Nil [of "[]" b is_bytes_linebreak]
    by (cases "splitlines_from is_bytes_linebreak [] b") auto
  with False show ?thesis by (simp add: parse_device_def)
qed

lemma parse_responses_bytes: "fst (parse_responses (map Bytes datagrams)) = []"
  by (induction datagrams) (simp_all add: fst_parse_responses parse_device_bytes)

lemma discover_devices_type_error:
  assumes "bind_error w 0 = None"
  shows "discover_devices discovery_time w =
           (Some (Inl (TypeError bytes_like_required)),
            w\<lparr>calls := calls w @
                 [Socket_call (opened w), Bind_call (opened w) 0, Setsockopt_call (opened w),
                  Sendto_call (opened w) (Str ''MCLDAT?\<newline>'') ''<broadcast>'' 4950],
               opened := Suc (opened w)\<rparr>)"
  using assms by (simp add: discover_devices_def socket_defs)

text \<open>
  Claim C5, where the code departs from it. A datagram is read as \<^verbatim>\<open>bytes\<close>, and parsing
  \<^verbatim>\<open>bytes\<close> ends in an exception on the first line (for an empty datagram, at the first
  lookup), inside the \<^verbatim>\<open>try\<close>: whatever datagrams are received, no descriptor results.
  Two well-formed replies around a malformed one give no descriptor and three printed
  lines, where the same three replies held as texts give the two descriptors of the
  claim. And the call does not get that far: it ends at the send.
\<close>

theorem replies_all_dropped:
  "fst (parse_responses (map Bytes datagrams)) = [] \<and>
   parse_responses [Bytes example_reply, Bytes malformed_reply, Bytes example_reply] =
     ([], [''Invalid Device Description Response'', ''Invalid Device Description Response'',
           ''Invalid Device Description Response'']) \<and>
   fst (parse_responses [Str example_reply, Str malformed_reply, Str example_reply]) =
     [example_device, example_device] \<and>
   fst (discover_devices 30 two_device_world) = Some (Inl (TypeError bytes_like_required))"
proof -
  have "bind_error two_device_world 0 = None" by (simp add: two_device_world_def)
  from discover_devices_type_error [OF this]
  have d: "fst (discover_devices 30 two_device_world) = Some (Inl (TypeError bytes_like_required))"
    by simp
  have e: "example_reply \<noteq> []" "malformed_reply \<noteq> []"
    by (simp_all add: example_reply_def malformed_reply_def)
  show ?thesis
    using d e
    by (simp add: parse_responses_bytes)
       (simp add: parse_responses_def parse_device_bytes example_reply_parses
          malformed_reply_fails)
qed

text \<open>
  Claim C8, where the code departs from it. With the answering port taken the call ends
  with \<^verbatim>\<open>TypeError\<close> at the send, exactly as it does with the port free and no device
  answering: the bind of the receive socket is never attempted.
\<close>

theorem bind_failure_never_reached:
  "fst (discover_devices 30 busy_port_world) = Some (Inl (TypeError bytes_like_required)) \<and>
   fst (discover_devices 30 quiet_world) = Some (Inl (TypeError bytes_like_required)) \<and>
   calls (snd (discover_devices 30 busy_port_world)) =
     [Socket_call 0, Bind_call 0 0, Setsockopt_call 0,
      Sendto_call 0 (Str ''MCLDAT?\<newline>'') ''<broadcast>'' 4950]"
proof -
  have "bind_error busy_port_world 0 = None" "bind_error quiet_world 0 = None"
    by (simp_all add: busy_port_world_def quiet_world_def)
  from discover_devices_type_error [OF this(1)] discover_devices_type_error [OF this(2)]
  show ?thesis by (simp add: busy_port_world_def)
qed

text \<open>
  Claim C9, where the code departs from it. With no reply at all the call ends with
  \<^verbatim>\<open>TypeError\<close> at the send, not with the empty list. Past the send, a clock that passes
  the deadline between the test of the loop and the computation of the time left makes
  the wait raise \<^verbatim>\<open>ValueError\<close>.
\<close>

theorem discovery_without_replies_raises:
  "fst (discover_devices 30 quiet_world) = Some (Inl (TypeError bytes_like_required)) \<and>
   fst (discover_devices 30 quiet_world) \<noteq> Some (Inr []) \<and>
   fst (receive_loop 1 30 [] late_clock_world) =
     Some (Inl (ValueError ''timeout must be non-negative''))"
proof -
  have "bind_error quiet_world 0 = None" by (simp add: quiet_world_def)
  from discover_devices_type_error [OF this]
  have "fst (discover_devices 30 quiet_world) = Some (Inl (TypeError bytes_like_required))"
    by simp
  moreover have "fst (receive_loop 1 30 [] late_clock_world) =
     Some (Inl (ValueError ''timeout must be non-negative''))"
    by (simp add: receive_loop.simps late_clock_world_def time_time_def select_def)
  ultimately show ?thesis by simp
qed

text \<open>
  Claim C10, where the code departs from it. A reply without the line of the MAC address,
  read as \<^verbatim>\<open>bytes\<close>, ends in \<^verbatim>\<open>TypeError\<close> on its first line, not in a lookup failure; of
  all datagrams only the empty one reaches the lookup. Held as a text, the same reply
  ends in \<^verbatim>\<open>KeyError\<close> for the missing field.
\<close>

theorem incomplete_reply_type_error:
  "parse_device (Bytes incomplete_reply) = Inl (TypeError bytes_like_required) \<and>
   parse_device (Bytes []) = Inl (KeyError ''Model Name'') \<and>
   parse_device (Str incomplete_reply) = Inl (KeyError ''Mac Address'')"
proof -
  have "incomplete_reply \<noteq> []" by (simp add: incomplete_reply_def)
  moreover have "parse_device (Str incomplete_reply) = Inl (KeyError ''Mac Address'')"
    by (simp add: incomplete_reply_def text_defs Attenuator_init_def)
  ultimately show ?thesis by (simp add: parse_device_bytes)
qed

section \<open>The order of the send and the bind\<close>

text \<open>
  Claim C7, as the code has it. The query is handed to the send right after the broadcast
  socket has been created, bound and enabled for broadcast: these are all the socket
  calls up to the send, so no receive socket exists, and no bind to port 4951 has
  happened, when the send is issued.
\<close>

theorem send_before_receive_socket:
  assumes "bind_error w 0 = None"
  shows "calls (snd (discover_devices discovery_time w)) =
           calls w @
           [Socket_call (opened w), Bind_call (opened w) 0, Setsockopt_call (opened w),
            Sendto_call (opened w) (Str ''MCLDAT?\<newline>'') ''<broadcast>'' 4950]"
  using discover_devices_type_error [OF assms] by simp

theorem send_before_receive_socket_witness:
  "calls (snd (discover_devices 30 quiet_world)) =
     [Socket_call 0, Bind_call 0 0, Setsockopt_call 0,
      Sendto_call 0 (Str ''MCLDAT?\<newline>'') ''<broadcast>'' 4950]"
  using send_before_receive_socket [of quiet_world 30]
  by (simp add: quiet_world_def)

text \<open>
  The claim as stated fails: in a run the send is issued and no bind to port 4951 has
  happened before it; none is among the calls of the run.
\<close>

theorem bind_not_before_send_counterexample:
  "calls (snd (discover_devices 30 two_device_world)) =
     [Socket_call 0, Bind_call 0 0, Setsockopt_call 0,
      Sendto_call 0 (Str ''MCLDAT?\<newline>'') ''<broadcast>'' 4950] \<and>
   Bind_call 1 4951 \<notin> set (calls (snd (discover_devices 30 two_device_world)))"
proof -
  have "bind_error two_device_world 0 = None" by (simp add: two_device_world_def)
  from discover_devices_type_error [OF this] show ?thesis
    by (simp add: two_device_world_def)
qed

section \<open>The two rules for a line of text\<close>

lemma is_space_delims [simp]: "\<not> is_space CHR '':''" "\<not> is_space CHR ''=''"
  by (simp_all add: is_space_def)


























section \<open>What the parser accepts as an address and a port\<close>







lemma Attenuator_init_Inr_iff:
  "(\<exists>a. Attenuator_init d = Inr a) = (\<forall>k\<in>set required_fields. d k \<noteq> None)"
  by (auto simp: Attenuator_init_def required_fields_def split: option.splits)






end
